theory Spec2Isabelle
  imports Complex_Main "HOL-Library.Word"
begin

unbundle bit_operations_syntax

section \<open>Values of the rendering library\<close>

text \<open>
  The viewport (\<^verbatim>\<open>src/client/editor/Viewport.js\<close>) is glue over three.js. The few library
  values it reads are modelled as plain data. JavaScript numbers are idealised as reals;
  a vector with a component that is not finite is a value of its own, since the only place
  where one can arise is the division in \<^verbatim>\<open>getMousePosition\<close>.
\<close>

datatype vector3 = Vector3 (v3x: real) (v3y: real) (v3z: real)

datatype euler = Euler (eux: real) (euy: real) (euz: real) (order: string)

text \<open>\<^verbatim>\<open>Vector3.equals\<close> and \<^verbatim>\<open>Euler.equals\<close> of three.js compare field by field.\<close>

definition Vector3_equals :: "vector3 \<Rightarrow> vector3 \<Rightarrow> bool" where
  "Vector3_equals a v = (v3x v = v3x a \<and> v3y v = v3y a \<and> v3z v = v3z a)"

definition Euler_equals :: "euler \<Rightarrow> euler \<Rightarrow> bool" where
  "Euler_equals a e = (eux e = eux a \<and> euy e = euy a \<and> euz e = euz a \<and> order e = order a)"

text \<open>
  A \<^verbatim>\<open>THREE.Vector2\<close>. \<open>NonFinite\<close> stands for every vector with a component that is
  \<^verbatim>\<open>NaN\<close> or infinite.
\<close>

datatype vector2 = Vector2 real real | NonFinite

text \<open>
  \<^verbatim>\<open>Vector2.distanceTo\<close>: the Euclidean distance. With a component that is not finite the
  result is \<^verbatim>\<open>NaN\<close> or \<^verbatim>\<open>Infinity\<close>, here \<open>None\<close>; it is never \<open>0\<close>.
\<close>

fun distanceTo :: "vector2 \<Rightarrow> vector2 \<Rightarrow> real option" where
  "distanceTo (Vector2 a b) (Vector2 c d) = Some (sqrt ((a - c) * (a - c) + (b - d) * (b - d)))"
| "distanceTo _ _ = None"

text \<open>
  An \<^verbatim>\<open>Object3D\<close> of the scene graph, with the fields the viewport reads. The graph is a
  tree, so the chain of \<^verbatim>\<open>parent\<close> links of an object is finite and the object carries it.
  \<open>uuid\<close> is the identity three.js gives every object: two values of this type are the
  same JavaScript object exactly when they are equal.
\<close>

datatype object3d =
  Object3D (uuid: nat) (isNode: bool) (position: vector3) (rotation: euler) (scale: vector3)
    (parent: "object3d option")

text \<open>The proper ancestors of an object, nearest first.\<close>

fun ancestors :: "object3d \<Rightarrow> object3d list" where
  "ancestors (Object3D u n p r sc None) = []"
| "ancestors (Object3D u n p r sc (Some q)) = q # ancestors q"

text \<open>
  \<^verbatim>\<open>THREE.Layers\<close>: a 32-bit mask; \<^verbatim>\<open>enable\<close> sets the bit of a channel and
  \<^verbatim>\<open>disable\<close> clears it.
\<close>

definition layers_enable :: "nat \<Rightarrow> 32 word \<Rightarrow> 32 word" where
  "layers_enable channel m = m OR push_bit channel 1"

definition layers_disable :: "nat \<Rightarrow> 32 word \<Rightarrow> 32 word" where
  "layers_disable channel m = m AND NOT (push_bit channel 1)"

type_synonym matrix4 = "real list"

record camera_state =
  cam_uuid :: nat
  aspect :: real
  layers :: "32 word"
  matrixWorld :: matrix4

section \<open>The editor and the transform gizmo\<close>

text \<open>
  The command classes (\<^verbatim>\<open>commands/SetPositionCommand\<close> and its two siblings) are not
  part of the sources at hand. A command is the record of its constructor's arguments, in
  the order the viewport passes them: the object, the new value, the old value.
\<close>

datatype command =
  SetPositionCommand object3d (newPosition: vector3) (oldPosition: vector3)
| SetRotationCommand object3d (newRotation: euler) (oldRotation: euler)
| SetScaleCommand object3d (newScale: vector3) (oldScale: vector3)

text \<open>
  The editor is external. The viewport reads \<^verbatim>\<open>editor.scene\<close> and calls four of its methods;
  the calls are logged in order.
\<close>

datatype editor_call = Select object3d | Deselect | Focus object3d | Execute command

record editor_state =
  scene :: object3d
  calls :: "editor_call list"

text \<open>
  Modelled from the spec: \<^verbatim>\<open>controls/SpokeTransformControls\<close> is not part of the sources at
  hand. The spec says that toggling or setting snap values updates the gizmo's snap
  increments immediately and that disabled snapping passes a null increment; so the gizmo
  holds the attached object, its mode, its space and the two increments, and each setter
  stores its argument.
\<close>

record transform_controls =
  tc_object :: "object3d option"
  tc_mode :: string
  tc_space :: string
  tc_translationSnap :: "real option"
  tc_rotationSnap :: "real option"

definition setTranslationSnap :: "real option \<Rightarrow> transform_controls \<Rightarrow> transform_controls" where
  "setTranslationSnap v tc = tc\<lparr>tc_translationSnap := v\<rparr>"

definition setRotationSnap :: "real option \<Rightarrow> transform_controls \<Rightarrow> transform_controls" where
  "setRotationSnap v tc = tc\<lparr>tc_rotationSnap := v\<rparr>"

definition setSpace :: "string \<Rightarrow> transform_controls \<Rightarrow> transform_controls" where
  "setSpace sp tc = tc\<lparr>tc_space := sp\<rparr>"

definition getMode :: "transform_controls \<Rightarrow> string" where
  "getMode tc = tc_mode tc"

section \<open>The viewport\<close>

record snap_values =
  translationSnap :: real
  rotationSnap :: real

text \<open>
  The fields of the \<^verbatim>\<open>Viewport\<close> object together with the variables its constructor
  closes over. \<open>skipRender\<close> and \<open>screenshotRenderer\<close> are \<^verbatim>\<open>_skipRender\<close> and
  \<^verbatim>\<open>_screenshotRenderer\<close>; a renderer is known by a number. The two listener flags say
  whether \<^verbatim>\<open>onMouseUp\<close> and \<^verbatim>\<open>onTouchEnd\<close> are registered on the document.
\<close>

record viewport =
  editor :: editor_state
  camera :: camera_state
  renderer :: nat
  screenshotRenderer :: nat
  skipRender :: bool
  transformControls :: transform_controls
  snapEnabled :: bool
  snapValues :: snap_values
  currentSpace :: string
  controls_enabled :: bool
  objectPositionOnDown :: "vector3 option"
  objectRotationOnDown :: "euler option"
  objectScaleOnDown :: "vector3 option"
  onDownPosition :: vector2
  onUpPosition :: vector2
  onDoubleClickPosition :: vector2
  mouseUpListener :: bool
  touchEndListener :: bool

subsection \<open>Snapping and coordinate space\<close>

definition updateSnapSettings :: "viewport \<Rightarrow> viewport" where
  "updateSnapSettings s =
     (let s1 = s\<lparr>transformControls :=
                  setTranslationSnap
                    (if snapEnabled s then Some (translationSnap (snapValues s)) else None)
                    (transformControls s)\<rparr>
      in s1\<lparr>transformControls :=
             setRotationSnap
               (if snapEnabled s1 then Some (rotationSnap (snapValues s1)) else None)
               (transformControls s1)\<rparr>)"

definition toggleSnap :: "viewport \<Rightarrow> viewport" where
  "toggleSnap s = updateSnapSettings (s\<lparr>snapEnabled := \<not> snapEnabled s\<rparr>)"

definition toggleSpace :: "viewport \<Rightarrow> viewport" where
  "toggleSpace s =
     (let s1 = s\<lparr>currentSpace := (if currentSpace s = ''world'' then ''local'' else ''world'')\<rparr>
      in s1\<lparr>transformControls := setSpace (currentSpace s1) (transformControls s1)\<rparr>)"

definition setSnapValue :: "string \<Rightarrow> real \<Rightarrow> viewport \<Rightarrow> viewport" where
  "setSnapValue type v s =
     updateSnapSettings
       (if type = ''translate'' then s\<lparr>snapValues := (snapValues s)\<lparr>translationSnap := v\<rparr>\<rparr>
        else if type = ''rotate'' then s\<lparr>snapValues := (snapValues s)\<lparr>rotationSnap := v\<rparr>\<rparr>
        else s)"

text \<open>
  The constructor, as far as it initialises the state above. Its arguments are the editor,
  the camera \<^verbatim>\<open>editor.camera\<close>, the two renderers \<^verbatim>\<open>makeRenderer\<close> creates and the freshly
  built gizmo. Both \<^verbatim>\<open>Vector2\<close> start at the origin, and the constructor ends its snap
  set-up with \<^verbatim>\<open>updateSnapSettings\<close>.
\<close>

definition Viewport_constructor ::
  "editor_state \<Rightarrow> camera_state \<Rightarrow> nat \<Rightarrow> nat \<Rightarrow> transform_controls \<Rightarrow> viewport" where
  "Viewport_constructor ed cam rdr srdr tc =
     updateSnapSettings
       \<lparr>editor = ed, camera = cam, renderer = rdr, screenshotRenderer = srdr,
        skipRender = False, transformControls = tc, snapEnabled = True,
        snapValues = \<lparr>translationSnap = 1, rotationSnap = pi / 4\<rparr>,
        currentSpace = ''world'', controls_enabled = True,
        objectPositionOnDown = None, objectRotationOnDown = None, objectScaleOnDown = None,
        onDownPosition = Vector2 0 0, onUpPosition = Vector2 0 0,
        onDoubleClickPosition = Vector2 0 0,
        mouseUpListener = False, touchEndListener = False\<rparr>"

subsection \<open>Picking\<close>

text \<open>
  \<^verbatim>\<open>getMousePosition\<close> divides by the width and the height of the canvas rectangle. Where
  one of them is \<open>0\<close> JavaScript yields \<^verbatim>\<open>NaN\<close> or an infinity, not the \<open>0\<close> of HOL's
  division. The result is the vector that \<^verbatim>\<open>fromArray\<close> stores.
\<close>

record dom_rect =
  rect_left :: real
  rect_top :: real
  rect_width :: real
  rect_height :: real

definition getMousePosition :: "dom_rect \<Rightarrow> real \<Rightarrow> real \<Rightarrow> vector2" where
  "getMousePosition rect x y =
     (if rect_width rect = 0 \<or> rect_height rect = 0 then NonFinite
      else Vector2 ((x - rect_left rect) / rect_width rect)
                   ((y - rect_top rect) / rect_height rect))"

text \<open>
  \<^verbatim>\<open>raycaster.setFromCamera\<close> followed by \<^verbatim>\<open>raycaster.intersectObject(scene, true)\<close> is the
  library's: a parameter that maps the pointer in normalised device coordinates, the
  camera and the scene to the intersected objects, nearest first.
\<close>

type_synonym raycast = "vector2 \<Rightarrow> camera_state \<Rightarrow> object3d \<Rightarrow> object3d list"

text \<open>The argument of \<^verbatim>\<open>mouse.set\<close> in \<^verbatim>\<open>getIntersectingNode\<close>.\<close>

fun mouse_set :: "vector2 \<Rightarrow> vector2" where
  "mouse_set (Vector2 x y) = Vector2 (x * 2 - 1) (- (y * 2) + 1)"
| "mouse_set NonFinite = NonFinite"

text \<open>
  The \<^verbatim>\<open>while\<close> loop of \<^verbatim>\<open>getIntersectingNode\<close>: from \<^verbatim>\<open>curObject\<close> upwards until an
  object with \<^verbatim>\<open>isNode\<close>, or \<^verbatim>\<open>null\<close> past the root.
\<close>

fun getIntersectingNode_while :: "object3d \<Rightarrow> object3d option" where
  "getIntersectingNode_while (Object3D u n p r sc par) =
     (if n then Some (Object3D u n p r sc par)
      else (case par of None \<Rightarrow> None | Some q \<Rightarrow> getIntersectingNode_while q))"

text \<open>
  The \<^verbatim>\<open>for\<close> loop over the results: the first result whose walk ends in an object other
  than \<^verbatim>\<open>editor.scene\<close> is returned.
\<close>

fun getIntersectingNode_for :: "object3d \<Rightarrow> object3d list \<Rightarrow> object3d option" where
  "getIntersectingNode_for edScene [] = None"
| "getIntersectingNode_for edScene (obj # results) =
     (case getIntersectingNode_while obj of
        Some curObject \<Rightarrow>
          if curObject \<noteq> edScene then Some curObject
          else getIntersectingNode_for edScene results
      | None \<Rightarrow> getIntersectingNode_for edScene results)"

definition getIntersectingNode ::
  "raycast \<Rightarrow> viewport \<Rightarrow> vector2 \<Rightarrow> object3d \<Rightarrow> object3d option" where
  "getIntersectingNode intersectObject s point scn =
     (let mouse = mouse_set point;
          results = intersectObject mouse (camera s) scn
      in if length results > 0 then getIntersectingNode_for (scene (editor s)) results
         else None)"

text \<open>
  A call of an editor method. What the editor does in it, such as dispatching
  \<^verbatim>\<open>objectSelected\<close> back to the viewport, is the editor's and is not part of the handler.
\<close>

definition editor_do :: "editor_call \<Rightarrow> viewport \<Rightarrow> viewport" where
  "editor_do c s = s\<lparr>editor := (editor s)\<lparr>calls := calls (editor s) @ [c]\<rparr>\<rparr>"

definition handleClick :: "raycast \<Rightarrow> viewport \<Rightarrow> viewport" where
  "handleClick intersectObject s =
     (if distanceTo (onDownPosition s) (onUpPosition s) = Some 0 then
        (case getIntersectingNode intersectObject s (onUpPosition s) (scene (editor s)) of
           Some node \<Rightarrow> editor_do (Select node) s
         | None \<Rightarrow> editor_do Deselect s)
      else s)"

text \<open>
  The pointer handlers take the canvas rectangle at the time of the event and the client
  coordinates of the event (for a touch event those of \<^verbatim>\<open>event.changedTouches[0]\<close>).
\<close>

definition onMouseUp :: "raycast \<Rightarrow> dom_rect \<Rightarrow> real \<Rightarrow> real \<Rightarrow> viewport \<Rightarrow> viewport" where
  "onMouseUp intersectObject rect clientX clientY s =
     (let s1 = s\<lparr>onUpPosition := getMousePosition rect clientX clientY\<rparr>;
          s2 = handleClick intersectObject s1
      in s2\<lparr>mouseUpListener := False\<rparr>)"

definition onMouseDown :: "dom_rect \<Rightarrow> real \<Rightarrow> real \<Rightarrow> viewport \<Rightarrow> viewport" where
  "onMouseDown rect clientX clientY s =
     (let s1 = s\<lparr>onDownPosition := getMousePosition rect clientX clientY\<rparr>
      in s1\<lparr>mouseUpListener := True\<rparr>)"

definition onTouchEnd :: "raycast \<Rightarrow> dom_rect \<Rightarrow> real \<Rightarrow> real \<Rightarrow> viewport \<Rightarrow> viewport" where
  "onTouchEnd intersectObject rect clientX clientY s =
     (let s1 = s\<lparr>onUpPosition := getMousePosition rect clientX clientY\<rparr>;
          s2 = handleClick intersectObject s1
      in s2\<lparr>touchEndListener := False\<rparr>)"

definition onTouchStart :: "dom_rect \<Rightarrow> real \<Rightarrow> real \<Rightarrow> viewport \<Rightarrow> viewport" where
  "onTouchStart rect clientX clientY s =
     (let s1 = s\<lparr>onDownPosition := getMousePosition rect clientX clientY\<rparr>
      in s1\<lparr>touchEndListener := True\<rparr>)"

definition onDoubleClick :: "raycast \<Rightarrow> dom_rect \<Rightarrow> real \<Rightarrow> real \<Rightarrow> viewport \<Rightarrow> viewport" where
  "onDoubleClick intersectObject rect clientX clientY s =
     (let s1 = s\<lparr>onDoubleClickPosition := getMousePosition rect clientX clientY\<rparr>
      in case getIntersectingNode intersectObject s1 (onDoubleClickPosition s1)
                (scene (editor s1)) of
           Some node \<Rightarrow> editor_do (Focus node) s1
         | None \<Rightarrow> s1)"

subsection \<open>Gizmo gestures\<close>

text \<open>
  The two listeners on the transform controls. Reading a property of \<^verbatim>\<open>undefined\<close> or of
  \<^verbatim>\<open>null\<close> throws a \<^verbatim>\<open>TypeError\<close>: in \<^verbatim>\<open>mouseDown\<close> when no object is attached, in
  \<^verbatim>\<open>mouseUp\<close> when the snapshot it compares with was never taken. Both throw before
  their first assignment.
\<close>

datatype error = TypeError

definition transformControls_mouseDown :: "viewport \<Rightarrow> error + viewport" where
  "transformControls_mouseDown s =
     (case tc_object (transformControls s) of
        None \<Rightarrow> Inl TypeError
      | Some obj \<Rightarrow>
          Inr (s\<lparr>objectPositionOnDown := Some (position obj),
                 objectRotationOnDown := Some (rotation obj),
                 objectScaleOnDown := Some (scale obj),
                 controls_enabled := False\<rparr>))"

definition transformControls_mouseUp :: "viewport \<Rightarrow> error + viewport" where
  "transformControls_mouseUp s =
     (case tc_object (transformControls s) of
        None \<Rightarrow> Inr (s\<lparr>controls_enabled := True\<rparr>)
      | Some obj \<Rightarrow>
          if getMode (transformControls s) = ''translate'' then
            (case objectPositionOnDown s of
               None \<Rightarrow> Inl TypeError
             | Some down \<Rightarrow>
                 Inr ((if \<not> Vector3_equals down (position obj)
                       then editor_do (Execute (SetPositionCommand obj (position obj) down)) s
                       else s)\<lparr>controls_enabled := True\<rparr>))
          else if getMode (transformControls s) = ''rotate'' then
            (case objectRotationOnDown s of
               None \<Rightarrow> Inl TypeError
             | Some down \<Rightarrow>
                 Inr ((if \<not> Euler_equals down (rotation obj)
                       then editor_do (Execute (SetRotationCommand obj (rotation obj) down)) s
                       else s)\<lparr>controls_enabled := True\<rparr>))
          else if getMode (transformControls s) = ''scale'' then
            (case objectScaleOnDown s of
               None \<Rightarrow> Inl TypeError
             | Some down \<Rightarrow>
                 Inr ((if \<not> Vector3_equals down (scale obj)
                       then editor_do (Execute (SetScaleCommand obj (scale obj) down)) s
                       else s)\<lparr>controls_enabled := True\<rparr>))
          else Inr (s\<lparr>controls_enabled := True\<rparr>))"

subsection \<open>Screenshots\<close>

text \<open>
  \<^verbatim>\<open>takeScreenshot\<close> is an \<^verbatim>\<open>async\<close> function with one \<^verbatim>\<open>await\<close>. It runs in two parts:
  up to the \<^verbatim>\<open>await\<close>, and from the point where the promise of \<^verbatim>\<open>getCanvasBlob\<close> is
  fulfilled. Other handlers may run in between. The local constants live across the
  \<^verbatim>\<open>await\<close>. The two \<^verbatim>\<open>render\<close> calls and the \<^verbatim>\<open>onRendererChanged\<close> callbacks of the nodes
  act on the library and on the scene, not on the fields here; \<open>mw\<close> is the world matrix
  \<^verbatim>\<open>camera.updateMatrixWorld()\<close> computes.
\<close>

type_synonym blob = "nat list"

record screenshot_locals =
  originalRenderer :: nat
  prevAspect :: real
  cameraTransform :: matrix4

record screenshot =
  shot_blob :: "blob option"
  shot_cameraTransform :: matrix4

definition takeScreenshot_begin :: "matrix4 \<Rightarrow> viewport \<Rightarrow> viewport \<times> screenshot_locals" where
  "takeScreenshot_begin mw s =
     (let original = renderer s;
          s1 = s\<lparr>renderer := screenshotRenderer s\<rparr>;
          s2 = s1\<lparr>skipRender := True\<rparr>;
          prev = aspect (camera s2);
          s3 = s2\<lparr>camera := (camera s2)\<lparr>aspect := 1920 / 1080\<rparr>\<rparr>;
          s4 = s3\<lparr>camera := (camera s3)\<lparr>layers := layers_disable 1 (layers (camera s3))\<rparr>\<rparr>;
          s5 = s4\<lparr>camera := (camera s4)\<lparr>layers := layers_enable 1 (layers (camera s4))\<rparr>\<rparr>;
          s6 = s5\<lparr>camera := (camera s5)\<lparr>matrixWorld := mw\<rparr>\<rparr>
      in (s6, \<lparr>originalRenderer = original, prevAspect = prev,
               cameraTransform = matrixWorld (camera s6)\<rparr>))"

definition takeScreenshot_resume ::
  "screenshot_locals \<Rightarrow> blob option \<Rightarrow> viewport \<Rightarrow> viewport \<times> screenshot" where
  "takeScreenshot_resume l b s =
     (let s1 = s\<lparr>camera := (camera s)\<lparr>aspect := prevAspect l\<rparr>\<rparr>;
          s2 = s1\<lparr>skipRender := False\<rparr>;
          s3 = s2\<lparr>renderer := originalRenderer l\<rparr>
      in (s3, \<lparr>shot_blob = b, shot_cameraTransform = cameraTransform l\<rparr>))"

text \<open>
  The image-encoding step \<^verbatim>\<open>getCanvasBlob\<close> ends in one of three ways: its promise is
  fulfilled, with a blob or with \<^verbatim>\<open>null\<close> when the canvas could not be encoded; the call
  of \<^verbatim>\<open>msToBlob\<close> or \<^verbatim>\<open>toBlob\<close> throws; or the callback is never called.
  \<^verbatim>\<open>takeScreenshot\<close> has no handler around the \<^verbatim>\<open>await\<close>, so only in the first case does
  it go on and return.
\<close>

datatype encoding = Fulfilled "blob option" | Throws | Pending

datatype capture = Returned screenshot | Thrown | Waiting

text \<open>A capture with no other handler running during the \<^verbatim>\<open>await\<close>.\<close>

definition takeScreenshot :: "matrix4 \<Rightarrow> encoding \<Rightarrow> viewport \<Rightarrow> viewport \<times> capture" where
  "takeScreenshot mw enc s =
     (let (s1, l) = takeScreenshot_begin mw s
      in case enc of
           Fulfilled b \<Rightarrow> (let (s2, r) = takeScreenshot_resume l b s1 in (s2, Returned r))
         | Throws \<Rightarrow> (s1, Thrown)
         | Pending \<Rightarrow> (s1, Waiting))"

subsection \<open>The states a viewport can be in\<close>

text \<open>
  A viewport starts in the state its constructor builds and moves by its handlers. The
  document calls \<^verbatim>\<open>onMouseUp\<close> and \<^verbatim>\<open>onTouchEnd\<close> only while they are registered. The
  last rule stands for everything others do to the objects the viewport shares with them:
  the gizmo attaches, detaches and moves its object and changes its mode, the editor
  replaces its scene and logs its calls, the camera moves and is resized, the orbit
  controls are switched.
\<close>

inductive reachable :: "viewport \<Rightarrow> bool" where
  constructed: "reachable (Viewport_constructor ed cam rdr srdr tc)"
| toggledSnap: "reachable s \<Longrightarrow> reachable (toggleSnap s)"
| toggledSpace: "reachable s \<Longrightarrow> reachable (toggleSpace s)"
| snapValueSet: "reachable s \<Longrightarrow> reachable (setSnapValue type v s)"
| mouseDown: "reachable s \<Longrightarrow> reachable (onMouseDown rect x y s)"
| mouseUp: "reachable s \<Longrightarrow> mouseUpListener s \<Longrightarrow> reachable (onMouseUp rc rect x y s)"
| touchStart: "reachable s \<Longrightarrow> reachable (onTouchStart rect x y s)"
| touchEnd: "reachable s \<Longrightarrow> touchEndListener s \<Longrightarrow> reachable (onTouchEnd rc rect x y s)"
| doubleClick: "reachable s \<Longrightarrow> reachable (onDoubleClick rc rect x y s)"
| gizmoDown: "reachable s \<Longrightarrow> transformControls_mouseDown s = Inr s' \<Longrightarrow> reachable s'"
| gizmoUp: "reachable s \<Longrightarrow> transformControls_mouseUp s = Inr s' \<Longrightarrow> reachable s'"
| captureBegun: "reachable s \<Longrightarrow> reachable (fst (takeScreenshot_begin mw s))"
| captureResumed: "reachable s \<Longrightarrow> reachable (fst (takeScreenshot_resume l b s))"
| others:
    "reachable s \<Longrightarrow>
     reachable (s\<lparr>editor := ed, camera := cam, controls_enabled := en,
                  transformControls := (transformControls s)\<lparr>tc_object := ob, tc_mode := m\<rparr>\<rparr>)"

section \<open>The Euler input widget\<close>











section \<open>A small scene\<close>

text \<open>
  A scene with one node, a mesh below the node and a grid helper directly below the
  scene; a canvas of 200 by 100 pixels at the origin of the page; a ray cast that hits the
  grid and then the mesh through the centre of the canvas, and nothing elsewhere.
\<close>

definition demo_scene :: object3d where
  "demo_scene =
     Object3D 0 True (Vector3 0 0 0) (Euler 0 0 0 ''XYZ'') (Vector3 1 1 1) None"

definition demo_box :: object3d where
  "demo_box =
     Object3D 1 True (Vector3 0 0 0) (Euler 0 0 0 ''XYZ'') (Vector3 1 1 1) (Some demo_scene)"

definition demo_mesh :: object3d where
  "demo_mesh =
     Object3D 2 False (Vector3 0 0 0) (Euler 0 0 0 ''XYZ'') (Vector3 1 1 1) (Some demo_box)"

definition demo_grid :: object3d where
  "demo_grid =
     Object3D 3 False (Vector3 0 0 0) (Euler 0 0 0 ''XYZ'') (Vector3 1 1 1) (Some demo_scene)"

definition demo_camera :: camera_state where
  "demo_camera = \<lparr>cam_uuid = 4, aspect = 4 / 3, layers = 3, matrixWorld = []\<rparr>"

definition demo_gizmo :: transform_controls where
  "demo_gizmo = \<lparr>tc_object = None, tc_mode = ''translate'', tc_space = ''world'',
     tc_translationSnap = None, tc_rotationSnap = None\<rparr>"

definition demo_viewport :: viewport where
  "demo_viewport =
     Viewport_constructor \<lparr>scene = demo_scene, calls = []\<rparr> demo_camera 0 1 demo_gizmo"

definition demo_rect :: dom_rect where
  "demo_rect = \<lparr>rect_left = 0, rect_top = 0, rect_width = 200, rect_height = 100\<rparr>"

definition demo_raycast :: raycast where
  "demo_raycast mouse cam scn = (if mouse = Vector2 0 0 then [demo_grid, demo_mesh] else [])"

text \<open>The box attached to the gizmo, and the same box after a drag along the x axis.\<close>

definition demo_attached :: viewport where
  "demo_attached = demo_viewport\<lparr>transformControls :=
     (transformControls demo_viewport)\<lparr>tc_object := Some demo_box\<rparr>\<rparr>"

definition demo_moved :: object3d where
  "demo_moved =
     Object3D 1 True (Vector3 2 0 0) (Euler 0 0 0 ''XYZ'') (Vector3 1 1 1) (Some demo_scene)"

definition demo_dragged :: viewport where
  "demo_dragged = demo_attached\<lparr>
     objectPositionOnDown := Some (position demo_box),
     objectRotationOnDown := Some (rotation demo_box),
     objectScaleOnDown := Some (scale demo_box),
     controls_enabled := False,
     transformControls := (transformControls demo_attached)\<lparr>tc_object := Some demo_moved\<rparr>\<rparr>"

text \<open>The viewport while a first capture waits for its image.\<close>

definition demo_capturing :: viewport where
  "demo_capturing = fst (takeScreenshot_begin [] demo_viewport)"



section \<open>Facts about the library values\<close>

lemmas demo_defs = demo_scene_def demo_box_def demo_mesh_def demo_grid_def demo_camera_def
  demo_gizmo_def demo_viewport_def demo_rect_def demo_raycast_def demo_attached_def
  demo_moved_def demo_dragged_def Viewport_constructor_def updateSnapSettings_def
  setTranslationSnap_def setRotationSnap_def Let_def



text \<open>The distance of two vectors is \<open>0\<close> exactly when they are the same finite vector.\<close>

lemma distanceTo_zero_iff: "distanceTo a b = Some 0 \<longleftrightarrow> a = b \<and> a \<noteq> NonFinite"
proof (cases a)
  case (Vector2 x y)
  show ?thesis
  proof (cases b)
    case (Vector2 x' y')
    have "(x - x') * (x - x') + (y - y') * (y - y') = 0 \<longleftrightarrow> x = x' \<and> y = y'"
      by simp
    with Vector2 \<open>a = Vector2 x y\<close> show ?thesis by simp
  next
    case NonFinite
    with \<open>a = Vector2 x y\<close> show ?thesis by simp
  qed
next
  case NonFinite
  then show ?thesis by simp
qed

lemma editor_do_simps:
  "calls (editor (editor_do c s)) = calls (editor s) @ [c]"
  "scene (editor (editor_do c s)) = scene (editor s)"
  "camera (editor_do c s) = camera s"
  "currentSpace (editor_do c s) = currentSpace s"
  by (simp_all add: editor_do_def)

section \<open>The walk up the ancestor chain\<close>

text \<open>The \<^verbatim>\<open>while\<close> loop finds the first object with \<^verbatim>\<open>isNode\<close> on the chain.\<close>

lemma while_find: "getIntersectingNode_while obj = find isNode (obj # ancestors obj)"
proof (induction obj rule: getIntersectingNode_while.induct)
  case (1 u n p r sc par)
  then show ?case by (cases par) simp_all
qed

lemma while_Some_chain:
  "getIntersectingNode_while obj = Some n \<Longrightarrow> isNode n \<and> n \<in> set (obj # ancestors obj)"
  unfolding while_find by (metis find_Some_iff nth_mem)

lemma while_None_iff:
  "getIntersectingNode_while obj = None \<longleftrightarrow> (\<forall>m\<in>set (obj # ancestors obj). \<not> isNode m)"
  unfolding while_find by (auto simp: find_None_iff)

text \<open>Every node of the chain lies on the chain of the node the walk ends in.\<close>

lemma while_nearest:
  "getIntersectingNode_while obj = Some n \<Longrightarrow> m \<in> set (obj # ancestors obj) \<Longrightarrow> isNode m
   \<Longrightarrow> m \<in> set (n # ancestors n)"
proof (induction obj rule: getIntersectingNode_while.induct)
  case (1 u nd p r sc par)
  show ?case
  proof (cases nd)
    case True
    with 1 show ?thesis by auto
  next
    case False
    with 1 show ?thesis by (cases par) auto
  qed
qed

text \<open>A root that lies on a chain is above everything else on it.\<close>

lemma root_last:
  "parent r = None \<Longrightarrow> r \<in> set (obj # ancestors obj) \<Longrightarrow> n \<in> set (obj # ancestors obj)
   \<Longrightarrow> n = r \<or> r \<in> set (ancestors n)"
proof (induction obj rule: ancestors.induct)
  case (1 u nd p rt sc)
  then show ?case by simp
next
  case (2 u nd p rt sc q)
  then show ?case by auto
qed

lemma ancestors_root: "parent r = None \<Longrightarrow> ancestors r = []"
  by (cases r rule: ancestors.cases) simp_all

text \<open>
  With the scene at the root, a chain holds a node other than the scene exactly when the
  walk ends in one.
\<close>

lemma selectable_iff:
  assumes "parent sc = None"
  shows "(\<exists>m\<in>set (obj # ancestors obj). isNode m \<and> m \<noteq> sc) \<longleftrightarrow>
         (\<exists>n. getIntersectingNode_while obj = Some n \<and> n \<noteq> sc)"
proof
  assume "\<exists>m\<in>set (obj # ancestors obj). isNode m \<and> m \<noteq> sc"
  then obtain m where m: "m \<in> set (obj # ancestors obj)" "isNode m" "m \<noteq> sc" by blast
  then have "getIntersectingNode_while obj \<noteq> None"
    using while_None_iff by blast
  then obtain n where n: "getIntersectingNode_while obj = Some n" by blast
  have "m \<in> set (n # ancestors n)" using while_nearest [OF n m(1) m(2)] .
  then have "n \<noteq> sc" using m(3) ancestors_root [OF assms] by auto
  with n show "\<exists>n. getIntersectingNode_while obj = Some n \<and> n \<noteq> sc" by blast
next
  assume "\<exists>n. getIntersectingNode_while obj = Some n \<and> n \<noteq> sc"
  then show "\<exists>m\<in>set (obj # ancestors obj). isNode m \<and> m \<noteq> sc"
    using while_Some_chain by blast
qed

section \<open>The loop over the intersections\<close>

lemma for_Some:
  "getIntersectingNode_for sc results = Some n \<Longrightarrow>
   \<exists>pre obj post. results = pre @ obj # post \<and>
     (\<forall>b\<in>set pre. \<not> (\<exists>k. getIntersectingNode_while b = Some k \<and> k \<noteq> sc)) \<and>
     getIntersectingNode_while obj = Some n \<and> n \<noteq> sc"
proof (induction results)
  case Nil
  then show ?case by simp
next
  case (Cons a results)
  show ?case
  proof (cases "\<exists>k. getIntersectingNode_while a = Some k \<and> k \<noteq> sc")
    case True
    then obtain k where k: "getIntersectingNode_while a = Some k" "k \<noteq> sc" by blast
    with Cons.prems have "k = n" by simp
    with k have "a # results = [] @ a # results \<and>
       (\<forall>b\<in>set []. \<not> (\<exists>k. getIntersectingNode_while b = Some k \<and> k \<noteq> sc)) \<and>
       getIntersectingNode_while a = Some n \<and> n \<noteq> sc" by simp
    then show ?thesis by blast
  next
    case False
    with Cons.prems have "getIntersectingNode_for sc results = Some n"
      by (auto split: option.splits if_splits)
    from Cons.IH [OF this] obtain pre obj post where
      p: "results = pre @ obj # post"
         "\<forall>b\<in>set pre. \<not> (\<exists>k. getIntersectingNode_while b = Some k \<and> k \<noteq> sc)"
         "getIntersectingNode_while obj = Some n \<and> n \<noteq> sc" by blast
    with False have "a # results = (a # pre) @ obj # post \<and>
       (\<forall>b\<in>set (a # pre). \<not> (\<exists>k. getIntersectingNode_while b = Some k \<and> k \<noteq> sc)) \<and>
       getIntersectingNode_while obj = Some n \<and> n \<noteq> sc" by simp
    then show ?thesis by blast
  qed
qed

lemma for_None_iff:
  "getIntersectingNode_for sc results = None \<longleftrightarrow>
   (\<forall>b\<in>set results. \<not> (\<exists>k. getIntersectingNode_while b = Some k \<and> k \<noteq> sc))"
  by (induction results) (auto split: option.splits)

text \<open>The guard on the number of results changes nothing: the loop over none is \<^verbatim>\<open>null\<close>.\<close>

lemma getIntersectingNode_for_eq:
  "getIntersectingNode rc s p scn =
     getIntersectingNode_for (scene (editor s)) (rc (mouse_set p) (camera s) scn)"
  by (cases "rc (mouse_set p) (camera s) scn") (simp_all add: getIntersectingNode_def Let_def)

section \<open>Clicks\<close>

lemma handleClick_calls:
  "calls (editor (handleClick rc s)) = calls (editor s) @
     (if onDownPosition s = onUpPosition s \<and> onUpPosition s \<noteq> NonFinite then
        (case getIntersectingNode_for (scene (editor s))
                (rc (mouse_set (onUpPosition s)) (camera s) (scene (editor s))) of
           Some n \<Rightarrow> [Select n] | None \<Rightarrow> [Deselect])
      else [])"
  by (auto simp: handleClick_def distanceTo_zero_iff getIntersectingNode_for_eq editor_do_simps
      split: option.splits)

lemma pointer_pair_calls:
  assumes "s' = onMouseUp rc rectU xU yU (onMouseDown rectD xD yD s) \<or>
           s' = onTouchEnd rc rectU xU yU (onTouchStart rectD xD yD s)"
  shows "calls (editor s') = calls (editor s) @
     (if getMousePosition rectD xD yD = getMousePosition rectU xU yU \<and>
         getMousePosition rectU xU yU \<noteq> NonFinite then
        (case getIntersectingNode_for (scene (editor s))
                (rc (mouse_set (getMousePosition rectU xU yU)) (camera s) (scene (editor s))) of
           Some n \<Rightarrow> [Select n] | None \<Rightarrow> [Deselect])
      else [])"
  using assms
  by (auto simp: onMouseUp_def onMouseDown_def onTouchEnd_def onTouchStart_def Let_def
      handleClick_calls)

text \<open>
  C2, as the code has it. Take a press and a release, by mouse or by touch, with the scene
  at the root of the graph, and the intersections of the ray through the release point.
  If press and release have the same finite normalised coordinates and some intersected
  object has a node other than the scene on its chain (itself or an ancestor), then the
  one call made is \<^verbatim>\<open>editor.select\<close>, with the nearest node of the first such object. If
  the coordinates are the same and no intersected object has such a node, the one call is
  \<^verbatim>\<open>editor.deselect\<close>. If the coordinates differ (or are not finite), no call is made:
  the selection stays as it is.
\<close>

theorem click_selects_or_deselects:
  fixes s s' :: viewport and intersectObject :: raycast
  defines "edScene \<equiv> scene (editor s)"
  assumes root: "parent (scene (editor s)) = None"
    and pair: "s' = onMouseUp intersectObject rectU xU yU (onMouseDown rectD xD yD s) \<or>
               s' = onTouchEnd intersectObject rectU xU yU (onTouchStart rectD xD yD s)"
    and down: "down = getMousePosition rectD xD yD"
    and up: "up = getMousePosition rectU xU yU"
    and hits: "hits = intersectObject (mouse_set up) (camera s) edScene"
  shows "(down = up \<and> up \<noteq> NonFinite \<and>
          (\<exists>obj\<in>set hits. \<exists>m\<in>set (obj # ancestors obj). isNode m \<and> m \<noteq> edScene) \<longrightarrow>
            (\<exists>n pre obj post.
               calls (editor s') = calls (editor s) @ [Select n] \<and>
               hits = pre @ obj # post \<and>
               (\<forall>b\<in>set pre. \<forall>m\<in>set (b # ancestors b). \<not> (isNode m \<and> m \<noteq> edScene)) \<and>
               find isNode (obj # ancestors obj) = Some n \<and> n \<noteq> edScene)) \<and>
         (down = up \<and> up \<noteq> NonFinite \<and>
          \<not> (\<exists>obj\<in>set hits. \<exists>m\<in>set (obj # ancestors obj). isNode m \<and> m \<noteq> edScene) \<longrightarrow>
            calls (editor s') = calls (editor s) @ [Deselect]) \<and>
         (down \<noteq> up \<or> up = NonFinite \<longrightarrow> calls (editor s') = calls (editor s))"
proof -
  note sel = selectable_iff [OF root, folded edScene_def]
  have c: "calls (editor s') = calls (editor s) @
     (if down = up \<and> up \<noteq> NonFinite then
        (case getIntersectingNode_for edScene hits of
           Some n \<Rightarrow> [Select n] | None \<Rightarrow> [Deselect])
      else [])"
    using pointer_pair_calls [OF pair] by (simp add: down up hits edScene_def)
  have first: "\<exists>n pre obj post.
               calls (editor s') = calls (editor s) @ [Select n] \<and>
               hits = pre @ obj # post \<and>
               (\<forall>b\<in>set pre. \<forall>m\<in>set (b # ancestors b). \<not> (isNode m \<and> m \<noteq> edScene)) \<and>
               find isNode (obj # ancestors obj) = Some n \<and> n \<noteq> edScene"
    if eq: "down = up \<and> up \<noteq> NonFinite"
      and ex: "\<exists>obj\<in>set hits. \<exists>m\<in>set (obj # ancestors obj). isNode m \<and> m \<noteq> edScene"
  proof -
    from ex sel have "getIntersectingNode_for edScene hits \<noteq> None"
      unfolding for_None_iff by blast
    then obtain n where n: "getIntersectingNode_for edScene hits = Some n" by blast
    from for_Some [OF n] obtain pre obj post where
      p: "hits = pre @ obj # post"
         "\<forall>b\<in>set pre. \<not> (\<exists>k. getIntersectingNode_while b = Some k \<and> k \<noteq> edScene)"
         "getIntersectingNode_while obj = Some n" "n \<noteq> edScene" by blast
    from p(2) sel have "\<forall>b\<in>set pre. \<forall>m\<in>set (b # ancestors b). \<not> (isNode m \<and> m \<noteq> edScene)"
      by blast
    moreover from c eq n have "calls (editor s') = calls (editor s) @ [Select n]" by simp
    moreover from p(3) have "find isNode (obj # ancestors obj) = Some n"
      by (simp only: while_find)
    ultimately show ?thesis using p(1) p(4) by blast
  qed
  have second: "calls (editor s') = calls (editor s) @ [Deselect]"
    if eq: "down = up \<and> up \<noteq> NonFinite"
      and nex: "\<not> (\<exists>obj\<in>set hits. \<exists>m\<in>set (obj # ancestors obj). isNode m \<and> m \<noteq> edScene)"
  proof -
    from nex sel have "getIntersectingNode_for edScene hits = None"
      unfolding for_None_iff by blast
    with c eq show ?thesis by simp
  qed
  have third: "calls (editor s') = calls (editor s)" if "down \<noteq> up \<or> up = NonFinite"
    using c that by auto
  from first second third show ?thesis by blast
qed

text \<open>
  In the small scene: a click on the centre of the canvas selects the box (the grid, hit
  first, has no node below the scene), a click elsewhere deselects, and a touch that
  starts at one point and ends at another calls nothing.
\<close>

theorem click_selects_or_deselects_witness:
  "calls (editor (onMouseUp demo_raycast demo_rect 100 50
            (onMouseDown demo_rect 100 50 demo_viewport))) = [Select demo_box] \<and>
   calls (editor (onMouseUp demo_raycast demo_rect 20 50
            (onMouseDown demo_rect 20 50 demo_viewport))) = [Deselect] \<and>
   calls (editor (onTouchEnd demo_raycast demo_rect 100 50
            (onTouchStart demo_rect 20 50 demo_viewport))) = []"
proof -
  have root: "parent (scene (editor demo_viewport)) = None"
    by (simp add: demo_defs)
  note eval = demo_defs getMousePosition_def onMouseUp_def onMouseDown_def onTouchEnd_def
    onTouchStart_def handleClick_def getIntersectingNode_def editor_do_def
  have 1: "calls (editor (onMouseUp demo_raycast demo_rect 100 50
            (onMouseDown demo_rect 100 50 demo_viewport))) = [Select demo_box]"
    using click_selects_or_deselects [where s = demo_viewport and intersectObject = demo_raycast
        and rectD = demo_rect and xD = 100 and yD = 50
        and rectU = demo_rect and xU = 100 and yU = 50, OF root disjI1 [OF refl] refl refl refl]
    by (simp add: eval)
  have 2: "calls (editor (onMouseUp demo_raycast demo_rect 20 50
            (onMouseDown demo_rect 20 50 demo_viewport))) = [Deselect]"
    using click_selects_or_deselects [where s = demo_viewport and intersectObject = demo_raycast
        and rectD = demo_rect and xD = 20 and yD = 50
        and rectU = demo_rect and xU = 20 and yU = 50, OF root disjI1 [OF refl] refl refl refl]
    by (simp add: eval)
  have 3: "calls (editor (onTouchEnd demo_raycast demo_rect 100 50
            (onTouchStart demo_rect 20 50 demo_viewport))) = []"
    using click_selects_or_deselects [where s = demo_viewport and intersectObject = demo_raycast
        and rectD = demo_rect and xD = 20 and yD = 50
        and rectU = demo_rect and xU = 100 and yU = 50, OF root disjI2 [OF refl] refl refl refl]
    by (simp add: eval)
  from 1 2 3 show ?thesis by simp
qed

text \<open>
  C2 as it is worded fails on a drag. A press at one point of the canvas and a release at
  another is a pair for which the condition of the claim does not hold, so the claim has
  \<^verbatim>\<open>editor.deselect\<close> called; the handler calls nothing.
\<close>

theorem drag_calls_no_deselect:
  "getMousePosition demo_rect 20 50 \<noteq> getMousePosition demo_rect 100 50 \<and>
   calls (editor demo_viewport) = [] \<and>
   Deselect \<notin> set (calls (editor (onMouseUp demo_raycast demo_rect 100 50
                       (onMouseDown demo_rect 20 50 demo_viewport))))"
  by (simp add: demo_defs getMousePosition_def onMouseUp_def onMouseDown_def handleClick_def)

section \<open>Double clicks\<close>

text \<open>
  C8. When the pick at the coordinate of a double click resolves to a node, the handler
  stores the coordinate and calls \<^verbatim>\<open>editor.focus\<close> with that node, and that is all it
  does: it calls neither \<^verbatim>\<open>editor.select\<close> nor \<^verbatim>\<open>editor.deselect\<close>. The node is the one
  a click at the same coordinate selects.
\<close>

theorem doubleClick_focuses_picked_node:
  assumes pick: "getIntersectingNode rc s (getMousePosition rect x y) (scene (editor s)) = Some n"
  shows "onDoubleClick rc rect x y s =
           editor_do (Focus n) (s\<lparr>onDoubleClickPosition := getMousePosition rect x y\<rparr>) \<and>
         calls (editor (onDoubleClick rc rect x y s)) = calls (editor s) @ [Focus n] \<and>
         (getMousePosition rect x y \<noteq> NonFinite \<longrightarrow>
            calls (editor (onMouseUp rc rect x y (onMouseDown rect x y s)))
              = calls (editor s) @ [Select n])"
proof -
  have g: "getIntersectingNode rc (s\<lparr>onDoubleClickPosition := p\<rparr>) q scn
         = getIntersectingNode rc s q scn" for p q scn
    by (simp add: getIntersectingNode_def Let_def)
  have 1: "onDoubleClick rc rect x y s =
           editor_do (Focus n) (s\<lparr>onDoubleClickPosition := getMousePosition rect x y\<rparr>)"
    using pick by (simp add: onDoubleClick_def Let_def g)
  then have 2: "calls (editor (onDoubleClick rc rect x y s)) = calls (editor s) @ [Focus n]"
    by (simp add: editor_do_simps)
  have 3: "calls (editor (onMouseUp rc rect x y (onMouseDown rect x y s)))
              = calls (editor s) @ [Select n]" if "getMousePosition rect x y \<noteq> NonFinite"
    using pointer_pair_calls [of _ rc rect x y rect x y s, OF disjI1, OF refl] that pick
    by (simp add: getIntersectingNode_for_eq)
  from 1 2 3 show ?thesis by blast
qed

text \<open>In the small scene a double click on the centre focuses the box a click selects.\<close>

theorem doubleClick_focuses_picked_node_witness:
  "calls (editor (onDoubleClick demo_raycast demo_rect 100 50 demo_viewport)) = [Focus demo_box] \<and>
   calls (editor (onMouseUp demo_raycast demo_rect 100 50
            (onMouseDown demo_rect 100 50 demo_viewport))) = [Select demo_box]"
proof -
  have pick: "getIntersectingNode demo_raycast demo_viewport (getMousePosition demo_rect 100 50)
      (scene (editor demo_viewport)) = Some demo_box"
    by (simp add: demo_defs getMousePosition_def getIntersectingNode_def)
  have fin: "getMousePosition demo_rect 100 50 \<noteq> NonFinite"
    by (simp add: getMousePosition_def demo_rect_def)
  have c0: "calls (editor demo_viewport) = []"
    by (simp add: demo_defs)
  show ?thesis
    using doubleClick_focuses_picked_node [OF pick] fin by (simp add: c0 editor_do_simps)
qed

section \<open>Picking and the scene root\<close>

text \<open>
  C9. For every pointer position, \<^verbatim>\<open>getIntersectingNode\<close> returns \<^verbatim>\<open>null\<close> or an object
  with \<^verbatim>\<open>isNode\<close> that is not \<^verbatim>\<open>editor.scene\<close>. When the scene is the root and the ray cast
  returns objects of the scene's subtree, as \<^verbatim>\<open>intersectObject(scene, true)\<close> does, the
  object returned lies strictly below the scene. The click handler never calls
  \<^verbatim>\<open>editor.select\<close> with the scene.
\<close>

theorem picking_never_yields_scene_root:
  fixes s :: viewport and intersectObject :: raycast and point :: vector2
  defines "edScene \<equiv> scene (editor s)"
  defines "picked \<equiv> getIntersectingNode intersectObject s point edScene"
  shows "(picked = None \<or> (\<exists>n. picked = Some n \<and> isNode n \<and> n \<noteq> edScene)) \<and>
         (parent edScene = None \<and>
          (\<forall>obj\<in>set (intersectObject (mouse_set point) (camera s) edScene).
              obj = edScene \<or> edScene \<in> set (ancestors obj)) \<longrightarrow>
          (\<forall>n. picked = Some n \<longrightarrow> edScene \<in> set (ancestors n))) \<and>
         (\<exists>new. calls (editor (handleClick intersectObject s)) = calls (editor s) @ new \<and>
                Select edScene \<notin> set new)"
proof -
  have some: "isNode n \<and> n \<noteq> edScene \<and>
              (\<exists>obj\<in>set (intersectObject (mouse_set point) (camera s) edScene).
                  n \<in> set (obj # ancestors obj))" if "picked = Some n" for n
  proof -
    from that have "getIntersectingNode_for edScene
        (intersectObject (mouse_set point) (camera s) edScene) = Some n"
      by (simp add: picked_def getIntersectingNode_for_eq edScene_def)
    from for_Some [OF this] show ?thesis
      using while_Some_chain by (metis in_set_conv_decomp)
  qed
  then have a: "picked = None \<or> (\<exists>n. picked = Some n \<and> isNode n \<and> n \<noteq> edScene)"
    by (cases picked) auto
  have b: "edScene \<in> set (ancestors n)"
    if root: "parent edScene = None"
      and within: "\<forall>obj\<in>set (intersectObject (mouse_set point) (camera s) edScene).
              obj = edScene \<or> edScene \<in> set (ancestors obj)"
      and n: "picked = Some n" for n
  proof -
    from some [OF n] obtain obj where
      obj: "obj \<in> set (intersectObject (mouse_set point) (camera s) edScene)"
           "n \<in> set (obj # ancestors obj)" "n \<noteq> edScene" by blast
    from within obj(1) have "edScene \<in> set (obj # ancestors obj)" by auto
    from root_last [OF root this obj(2)] obj(3) show ?thesis by simp
  qed
  have "Select edScene \<notin> set
     (if onDownPosition s = onUpPosition s \<and> onUpPosition s \<noteq> NonFinite then
        (case getIntersectingNode_for (scene (editor s))
                (intersectObject (mouse_set (onUpPosition s)) (camera s) (scene (editor s))) of
           Some n \<Rightarrow> [Select n] | None \<Rightarrow> [Deselect])
      else [])"
    using for_Some [of edScene] by (auto simp: edScene_def split: option.splits)
  then have c: "\<exists>new. calls (editor (handleClick intersectObject s)) = calls (editor s) @ new \<and>
                Select edScene \<notin> set new"
    using handleClick_calls [of intersectObject s] by blast
  from a b c show ?thesis by blast
qed

text \<open>In the small scene the pick through the centre is the box, one step below the scene.\<close>

theorem picking_never_yields_scene_root_witness:
  "getIntersectingNode demo_raycast demo_viewport (Vector2 (1/2) (1/2)) demo_scene
     = Some demo_box \<and>
   isNode demo_box \<and> demo_box \<noteq> demo_scene \<and> demo_scene \<in> set (ancestors demo_box)"
proof -
  have pick: "getIntersectingNode demo_raycast demo_viewport (Vector2 (1/2) (1/2))
      (scene (editor demo_viewport)) = Some demo_box"
    by (simp add: demo_defs getIntersectingNode_def)
  have sc: "scene (editor demo_viewport) = demo_scene"
    by (simp add: demo_defs)
  have root: "parent demo_scene = None"
    by (simp add: demo_scene_def)
  have within: "\<forall>obj\<in>set (demo_raycast (mouse_set (Vector2 (1/2) (1/2))) (camera demo_viewport)
       demo_scene). obj = demo_scene \<or> demo_scene \<in> set (ancestors obj)"
    by (simp add: demo_raycast_def demo_grid_def demo_mesh_def demo_box_def demo_scene_def)
  show ?thesis
    using picking_never_yields_scene_root [of demo_raycast demo_viewport "Vector2 (1/2) (1/2)"]
      pick root within
    by (simp add: sc)
qed

section \<open>Gizmo gestures\<close>



section \<open>Screenshots\<close>

text \<open>
  C3, as the code has it. Whatever happens between the two parts of a capture, when the
  image-encoding promise is fulfilled (with a blob or with \<^verbatim>\<open>null\<close>) and the capture
  returns, the \<^verbatim>\<open>renderer\<close> field and the camera's aspect ratio have the values they had
  immediately before the call, and \<^verbatim>\<open>_skipRender\<close> is \<^verbatim>\<open>false\<close>; that is its value before
  the call whenever rendering was not suspended then. A capture returns only when the
  promise is fulfilled.
\<close>

theorem takeScreenshot_restores_renderer_and_aspect:
  "(takeScreenshot_begin mw s = (s1, l) \<and> takeScreenshot_resume l b s2 = (s3, r) \<longrightarrow>
      renderer s3 = renderer s \<and> aspect (camera s3) = aspect (camera s) \<and>
      skipRender s3 = False \<and> (\<not> skipRender s \<longrightarrow> skipRender s3 = skipRender s)) \<and>
   (takeScreenshot mw enc s = (s', Returned r') \<longrightarrow>
      (\<exists>b. enc = Fulfilled b \<and> shot_blob r' = b) \<and>
      renderer s' = renderer s \<and> aspect (camera s') = aspect (camera s) \<and>
      skipRender s' = False \<and> (\<not> skipRender s \<longrightarrow> skipRender s' = skipRender s))"
  by (auto simp: takeScreenshot_def takeScreenshot_begin_def takeScreenshot_resume_def Let_def
      split: encoding.splits)

text \<open>
  A capture of the small scene that is handed two bytes of image returns them, with the
  viewport's renderer, the aspect ratio of four to three and live rendering back.
\<close>

theorem takeScreenshot_restores_renderer_and_aspect_witness:
  "snd (takeScreenshot [] (Fulfilled (Some [255, 216])) demo_viewport) =
     Returned \<lparr>shot_blob = Some [255, 216], shot_cameraTransform = []\<rparr> \<and>
   renderer (fst (takeScreenshot [] (Fulfilled (Some [255, 216])) demo_viewport)) = 0 \<and>
   aspect (camera (fst (takeScreenshot [] (Fulfilled (Some [255, 216])) demo_viewport))) = 4 / 3 \<and>
   \<not> skipRender (fst (takeScreenshot [] (Fulfilled (Some [255, 216])) demo_viewport))"
proof -
  have res: "snd (takeScreenshot [] (Fulfilled (Some [255, 216])) demo_viewport) =
      Returned \<lparr>shot_blob = Some [255, 216], shot_cameraTransform = []\<rparr>"
    by (simp add: takeScreenshot_def takeScreenshot_begin_def takeScreenshot_resume_def Let_def)
  then have run: "takeScreenshot [] (Fulfilled (Some [255, 216])) demo_viewport =
     (fst (takeScreenshot [] (Fulfilled (Some [255, 216])) demo_viewport),
      Returned \<lparr>shot_blob = Some [255, 216], shot_cameraTransform = []\<rparr>)"
    by (simp add: prod_eq_iff)
  have before: "renderer demo_viewport = 0" "aspect (camera demo_viewport) = 4 / 3"
    "\<not> skipRender demo_viewport"
    by (simp_all add: demo_defs)
  from takeScreenshot_restores_renderer_and_aspect
    [where mw = "[]" and enc = "Fulfilled (Some [255, 216])" and s = demo_viewport
       and s' = "fst (takeScreenshot [] (Fulfilled (Some [255, 216])) demo_viewport)"
       and r' = "\<lparr>shot_blob = Some [255, 216], shot_cameraTransform = []\<rparr>",
     THEN conjunct2, THEN mp, OF run]
    before res
  show ?thesis by simp
qed

text \<open>
  C3 as it is worded fails on \<^verbatim>\<open>_skipRender\<close> for a capture that is started while another
  one waits for its image. The state is reached from the constructor by the first part of
  a capture; rendering is suspended in it. The second capture returns, and leaves
  \<^verbatim>\<open>_skipRender\<close> at \<^verbatim>\<open>false\<close>, which is not the value from before the call.
\<close>

theorem second_capture_resumes_rendering:
  "reachable demo_capturing \<and> skipRender demo_capturing \<and>
   snd (takeScreenshot [] (Fulfilled None) demo_capturing) =
     Returned \<lparr>shot_blob = None, shot_cameraTransform = []\<rparr> \<and>
   skipRender (fst (takeScreenshot [] (Fulfilled None) demo_capturing))
     \<noteq> skipRender demo_capturing"
proof -
  have "reachable demo_viewport"
    unfolding demo_viewport_def by (rule reachable.constructed)
  then have "reachable demo_capturing"
    unfolding demo_capturing_def by (rule reachable.captureBegun)
  then show ?thesis
    by (simp add: demo_capturing_def takeScreenshot_def takeScreenshot_begin_def
        takeScreenshot_resume_def Let_def)
qed

section \<open>Snapping\<close>

lemma updateSnapSettings_fields:
  "snapEnabled (updateSnapSettings s) = snapEnabled s"
  "snapValues (updateSnapSettings s) = snapValues s"
  "currentSpace (updateSnapSettings s) = currentSpace s"
  by (simp_all add: updateSnapSettings_def Let_def)

text \<open>
  C5. Calling \<^verbatim>\<open>toggleSnap\<close> twice in succession returns \<^verbatim>\<open>snapEnabled\<close> to the value it
  had, from every state of the viewport.
\<close>

theorem toggleSnap_twice_snapEnabled:
  "snapEnabled (toggleSnap (toggleSnap s)) = snapEnabled s"
  by (simp add: toggleSnap_def updateSnapSettings_fields)

text \<open>Snapping is on after construction, off after one toggle and on again after two.\<close>

theorem toggleSnap_twice_snapEnabled_witness:
  "snapEnabled demo_viewport \<and> \<not> snapEnabled (toggleSnap demo_viewport) \<and>
   snapEnabled (toggleSnap (toggleSnap demo_viewport))"
proof -
  have "snapEnabled demo_viewport"
    by (simp add: demo_defs)
  moreover have "\<not> snapEnabled (toggleSnap demo_viewport)"
    by (simp add: toggleSnap_def demo_defs)
  ultimately show ?thesis
    using toggleSnap_twice_snapEnabled [of demo_viewport] by simp
qed

text \<open>
  C6. \<^verbatim>\<open>setSnapValue\<close> with type translate sets \<^verbatim>\<open>snapValues.translationSnap\<close> to the
  value and leaves \<^verbatim>\<open>snapValues.rotationSnap\<close> as it was; with type rotate it sets
  \<^verbatim>\<open>snapValues.rotationSnap\<close> and leaves \<^verbatim>\<open>snapValues.translationSnap\<close>. In both cases
  \<^verbatim>\<open>snapEnabled\<close> and \<^verbatim>\<open>currentSpace\<close> are unchanged, and so is every field of the
  viewport other than \<^verbatim>\<open>snapValues\<close> and the gizmo.
\<close>

theorem setSnapValue_changes_one_increment:
  "translationSnap (snapValues (setSnapValue ''translate'' v s)) = v \<and>
   rotationSnap (snapValues (setSnapValue ''translate'' v s)) = rotationSnap (snapValues s) \<and>
   snapEnabled (setSnapValue ''translate'' v s) = snapEnabled s \<and>
   currentSpace (setSnapValue ''translate'' v s) = currentSpace s \<and>
   (setSnapValue ''translate'' v s)\<lparr>snapValues := snapValues s,
      transformControls := transformControls s\<rparr> = s \<and>
   rotationSnap (snapValues (setSnapValue ''rotate'' v s)) = v \<and>
   translationSnap (snapValues (setSnapValue ''rotate'' v s)) = translationSnap (snapValues s) \<and>
   snapEnabled (setSnapValue ''rotate'' v s) = snapEnabled s \<and>
   currentSpace (setSnapValue ''rotate'' v s) = currentSpace s \<and>
   (setSnapValue ''rotate'' v s)\<lparr>snapValues := snapValues s,
      transformControls := transformControls s\<rparr> = s"
  by (simp add: setSnapValue_def updateSnapSettings_def Let_def)

text \<open>Half a unit of translation snap next to the initial eighth of a turn, and back.\<close>

theorem setSnapValue_changes_one_increment_witness:
  "snapValues (setSnapValue ''translate'' (1/2) demo_viewport)
     = \<lparr>translationSnap = 1/2, rotationSnap = pi / 4\<rparr> \<and>
   snapValues (setSnapValue ''rotate'' (1/2) demo_viewport)
     = \<lparr>translationSnap = 1, rotationSnap = 1/2\<rparr>"
proof -
  have "snapValues demo_viewport = \<lparr>translationSnap = 1, rotationSnap = pi / 4\<rparr>"
    by (simp add: demo_defs)
  then show ?thesis
    using setSnapValue_changes_one_increment [of "1/2" demo_viewport]
    by (simp add: setSnapValue_def updateSnapSettings_fields)
qed

text \<open>
  C7. In the state the constructor builds, and in the state after every \<^verbatim>\<open>toggleSnap\<close>
  and every \<^verbatim>\<open>setSnapValue\<close>, the gizmo's translation and rotation increments are the
  stored \<^verbatim>\<open>snapValues\<close> when \<^verbatim>\<open>snapEnabled\<close> is true and \<^verbatim>\<open>null\<close> when it is false.
\<close>

theorem snap_increments_follow_settings:
  assumes "s' = Viewport_constructor ed cam rdr srdr tc \<or> s' = toggleSnap s \<or>
           s' = setSnapValue type v s"
  shows "tc_translationSnap (transformControls s') =
           (if snapEnabled s' then Some (translationSnap (snapValues s')) else None) \<and>
         tc_rotationSnap (transformControls s') =
           (if snapEnabled s' then Some (rotationSnap (snapValues s')) else None)"
proof -
  have "tc_translationSnap (transformControls (updateSnapSettings t)) =
           (if snapEnabled (updateSnapSettings t)
            then Some (translationSnap (snapValues (updateSnapSettings t))) else None) \<and>
        tc_rotationSnap (transformControls (updateSnapSettings t)) =
           (if snapEnabled (updateSnapSettings t)
            then Some (rotationSnap (snapValues (updateSnapSettings t))) else None)" for t
    by (simp add: updateSnapSettings_def Let_def setTranslationSnap_def setRotationSnap_def)
  with assms show ?thesis
    unfolding Viewport_constructor_def toggleSnap_def setSnapValue_def by blast
qed

text \<open>
  The gizmo of the small scene snaps by one unit and an eighth of a turn after
  construction, and not at all after a toggle.
\<close>

theorem snap_increments_follow_settings_witness:
  "tc_translationSnap (transformControls demo_viewport) = Some 1 \<and>
   tc_rotationSnap (transformControls demo_viewport) = Some (pi / 4) \<and>
   tc_translationSnap (transformControls (toggleSnap demo_viewport)) = None \<and>
   tc_rotationSnap (transformControls (toggleSnap demo_viewport)) = None"
proof -
  have on: "snapEnabled demo_viewport" "\<not> snapEnabled (toggleSnap demo_viewport)"
    "snapValues demo_viewport = \<lparr>translationSnap = 1, rotationSnap = pi / 4\<rparr>"
    by (simp_all add: toggleSnap_def demo_defs)
  from snap_increments_follow_settings [where s' = demo_viewport, OF disjI1,
      OF demo_viewport_def]
    snap_increments_follow_settings [where s' = "toggleSnap demo_viewport", OF disjI2,
      OF disjI1, OF refl]
    on
  show ?thesis by simp
qed

section \<open>The coordinate space\<close>

lemma currentSpace_frame:
  "currentSpace (toggleSnap s) = currentSpace s"
  "currentSpace (setSnapValue type v s) = currentSpace s"
  "currentSpace (onMouseDown rect x y s) = currentSpace s"
  "currentSpace (onTouchStart rect x y s) = currentSpace s"
  "currentSpace (handleClick rc s) = currentSpace s"
  "currentSpace (onDoubleClick rc rect x y s) = currentSpace s"
  "currentSpace (fst (takeScreenshot_begin mw s)) = currentSpace s"
  "currentSpace (fst (takeScreenshot_resume l b s)) = currentSpace s"
  by (simp_all add: toggleSnap_def setSnapValue_def updateSnapSettings_fields onMouseDown_def
      onTouchStart_def handleClick_def onDoubleClick_def takeScreenshot_begin_def
      takeScreenshot_resume_def Let_def editor_do_simps split: option.splits)

lemma currentSpace_up:
  "currentSpace (onMouseUp rc rect x y s) = currentSpace s"
  "currentSpace (onTouchEnd rc rect x y s) = currentSpace s"
  by (simp_all add: onMouseUp_def onTouchEnd_def Let_def currentSpace_frame)

lemma currentSpace_gizmo:
  "transformControls_mouseDown s = Inr s' \<Longrightarrow> currentSpace s' = currentSpace s"
  "transformControls_mouseUp s = Inr s' \<Longrightarrow> currentSpace s' = currentSpace s"
  by (auto simp: transformControls_mouseDown_def transformControls_mouseUp_def editor_do_simps
      split: option.splits if_splits)

lemma currentSpace_toggleSpace:
  "currentSpace (toggleSpace s) = (if currentSpace s = ''world'' then ''local'' else ''world'')"
  by (simp add: toggleSpace_def Let_def)

text \<open>Only the constructor and \<^verbatim>\<open>toggleSpace\<close> write the space, by rule induction.\<close>

lemma reachable_space:
  "reachable s \<Longrightarrow> currentSpace s = ''world'' \<or> currentSpace s = ''local''"
proof (induction rule: reachable.induct)
  case (constructed ed cam rdr srdr tc)
  then show ?case by (simp add: Viewport_constructor_def updateSnapSettings_fields)
next
  case (toggledSpace s)
  then show ?case by (simp add: currentSpace_toggleSpace)
next
  case (gizmoDown s s')
  then show ?case by (simp add: currentSpace_gizmo)
next
  case (gizmoUp s s')
  then show ?case by (simp add: currentSpace_gizmo)
qed (simp_all add: currentSpace_frame currentSpace_up)

text \<open>
  C10. The constructor sets the coordinate space to world. In every state the viewport
  can be in the space is world or local, \<^verbatim>\<open>toggleSpace\<close> maps world to local and local to
  world, and calling it twice returns \<^verbatim>\<open>currentSpace\<close> to the value it had.
\<close>

theorem currentSpace_world_or_local:
  assumes "reachable s"
  shows "currentSpace (Viewport_constructor ed cam rdr srdr tc) = ''world'' \<and>
         (currentSpace s = ''world'' \<or> currentSpace s = ''local'') \<and>
         (currentSpace s = ''world'' \<longrightarrow> currentSpace (toggleSpace s) = ''local'') \<and>
         (currentSpace s = ''local'' \<longrightarrow> currentSpace (toggleSpace s) = ''world'') \<and>
         currentSpace (toggleSpace (toggleSpace s)) = currentSpace s"
  using reachable_space [OF assms]
  by (auto simp: currentSpace_toggleSpace Viewport_constructor_def updateSnapSettings_fields)

text \<open>One toggle after construction gives local, a second one world again.\<close>

theorem currentSpace_world_or_local_witness:
  "reachable (toggleSpace demo_viewport) \<and>
   currentSpace (toggleSpace demo_viewport) = ''local'' \<and>
   currentSpace (toggleSpace (toggleSpace demo_viewport)) = ''world''"
proof -
  have "reachable demo_viewport"
    unfolding demo_viewport_def by (rule reachable.constructed)
  then have r: "reachable (toggleSpace demo_viewport)"
    by (rule reachable.toggledSpace)
  have "currentSpace (toggleSpace demo_viewport) = ''local''"
    by (simp add: demo_defs toggleSpace_def)
  with currentSpace_world_or_local [OF r] r show ?thesis
    by simp
qed

section \<open>The Euler input widget: the round trip\<close>








end
